theory Spec2Isabelle
  imports Complex_Main
begin

section \<open>Job application tracker: the REST handlers of backend/server.js\<close>

text \<open>
  The handlers of \<^verbatim>\<open>src/backend/server.js\<close> are Express routes over two PostgreSQL
  tables. Each handler is embedded as a function from the store and the request to a
  response (and, for a mutation, the store afterwards). A \<^verbatim>\<open>return res.status(n).json({error})\<close>
  is \<open>Failure n msg\<close>; the \<^verbatim>\<open>catch\<close> block of every handler is \<open>Failure 500\<close>.

  Scope of the model.
  \<^item> Request fields are JSON text, JSON null, or absent. Numbers, booleans, arrays and
    objects in a body are not modelled.
  \<^item> Numbers (page, limit, offsets, counts, identifiers) are mathematical integers.
    JavaScript doubles and the store's integer types agree with them below \<open>2^53\<close>;
    larger magnitudes are not modelled.
  \<^item> A string is a list of characters; one element stands for one UTF-16 code unit of
    the JavaScript string, which is exact for ASCII text.
  \<^item> The store is a list of rows per table. Which values a column accepts (lengths of
    \<^verbatim>\<open>VARCHAR(n)\<close>, syntax of \<^verbatim>\<open>DATE\<close>) is PostgreSQL's business and is a parameter
    of the statements that write. A \<^verbatim>\<open>DATE\<close> column holds the accepted text.
  \<^item> Requests are handled one at a time; \<^verbatim>\<open>CURRENT_TIMESTAMP\<close> is the parameter \<open>now\<close>.
  \<^item> The middleware in front of the handlers (rate limiting, \<^verbatim>\<open>authenticateToken\<close>) is not
    modelled: a job handler takes \<open>uid\<close>, the \<^verbatim>\<open>userId\<close> of the verified token.
\<close>

subsection \<open>JavaScript values\<close>

datatype jsval = JUndefined | JNull | JString string

text \<open>\<^verbatim>\<open>!v\<close> is \<open>\<not> truthy v\<close>: undefined, null and the empty string are falsy.\<close>

fun truthy :: "jsval \<Rightarrow> bool" where
  "truthy (JString s) = (s \<noteq> [])"
| "truthy JUndefined = False"
| "truthy JNull = False"

text \<open>\<^verbatim>\<open>v || null\<close>\<close>

definition or_null :: "jsval \<Rightarrow> jsval" where
  "or_null v = (if truthy v then v else JNull)"

text \<open>A destructuring default, \<^verbatim>\<open>{ status = 'applied' } = req.body\<close>: only undefined takes it.\<close>

fun default_to :: "jsval \<Rightarrow> jsval \<Rightarrow> jsval" where
  "default_to JUndefined d = d"
| "default_to v d = v"

text \<open>A query parameter as node-postgres sends it: undefined and null become SQL NULL.\<close>

fun prepareValue :: "jsval \<Rightarrow> string option" where
  "prepareValue (JString s) = Some s"
| "prepareValue JUndefined = None"
| "prepareValue JNull = None"

text \<open>
  The text of a value that passed a truthiness test (in this model such a value is always
  a non-empty text): what \<^verbatim>\<open>password.length\<close>, \<^verbatim>\<open>`%${company}%`\<close> and the hashing
  function read.
\<close>

fun text_of :: "jsval \<Rightarrow> string" where
  "text_of (JString s) = s"
| "text_of JUndefined = []"
| "text_of JNull = []"

text \<open>\<^verbatim>\<open>req.body\<close> and \<^verbatim>\<open>req.query\<close>: a field that is not sent reads as undefined.\<close>

type_synonym body = "string \<Rightarrow> jsval"

definition no_fields :: body where
  "no_fields = (\<lambda>_. JUndefined)"

text \<open>
  The \<^verbatim>\<open>:id\<close> segment of the path, by what the handler's test \<^verbatim>\<open>!id || isNaN(id)\<close> and
  then the store's \<^verbatim>\<open>INTEGER\<close> input make of the text:
  \<open>IdNaN\<close> fails the test; \<open>IdNotInteger\<close> passes it but is no integer for the store
  (such as \<^verbatim>\<open>1.5\<close>), so the statement raises; \<open>IdInt i\<close> is read as the integer \<open>i\<close>.
\<close>

datatype idparam = IdNaN | IdNotInteger | IdInt int

text \<open>
  The \<^verbatim>\<open>page\<close> and \<^verbatim>\<open>limit\<close> parameters of the query string: not sent (the default
  applies); a text that JavaScript's number conversion, \<^verbatim>\<open>parseInt\<close> and the store all read
  as the same integer; or a text whose number conversion is NaN. Other texts (fractions,
  exponents, blanks) are not modelled.
\<close>

datatype numparam = Omitted | Numeral int | NonNumeric

text \<open>The number a parameter denotes, with its default; \<open>None\<close> is NaN.\<close>

fun js_number :: "numparam \<Rightarrow> int \<Rightarrow> int option" where
  "js_number Omitted d = Some d"
| "js_number (Numeral n) d = Some n"
| "js_number NonNumeric d = None"

subsection \<open>Responses\<close>

datatype 'a response = Success nat 'a | Failure nat string

abbreviation internal_error :: "'a response" where
  "internal_error \<equiv> Failure 500 ''Internal server error''"

subsection \<open>The store\<close>

text \<open>
  The columns of \<^verbatim>\<open>job_applications\<close> that a request sets, in the order of the UPDATE
  statement's SET clause. \<open>None\<close> is SQL NULL.
\<close>

record job_values =
  company_name :: "string option"
  job_title :: "string option"
  job_url :: "string option"
  location :: "string option"
  salary_range :: "string option"
  application_date :: "string option"
  status :: "string option"
  description :: "string option"
  requirements :: "string option"
  notes_text :: "string option"
  contact_person :: "string option"
  contact_email :: "string option"
  follow_up_date :: "string option"

text \<open>A row of \<^verbatim>\<open>job_applications\<close>; \<open>job_id\<close> is the column \<^verbatim>\<open>id\<close>.\<close>

record job = job_values +
  job_id :: int
  user_id :: "int option"
  created_at :: nat
  updated_at :: nat

text \<open>A row of \<^verbatim>\<open>users\<close>; \<open>users_id\<close> is the column \<^verbatim>\<open>id\<close>.\<close>

record user_row =
  users_id :: int
  username :: string
  email :: string
  password_hash :: string
  users_created_at :: nat
  users_updated_at :: nat

text \<open>The two tables and the sequences behind their \<^verbatim>\<open>SERIAL\<close> keys.\<close>

record db =
  users :: "user_row list"
  users_id_seq :: int
  job_applications :: "job list"
  job_applications_id_seq :: int

definition empty_db :: db where
  "empty_db = \<lparr>users = [], users_id_seq = 0, job_applications = [], job_applications_id_seq = 0\<rparr>"

datatype db_error = DataException | NotNullViolation | ForeignKeyViolation | UniqueViolation

text \<open>\<^verbatim>\<open>WHERE id = $1 AND user_id = $2\<close>\<close>

definition owned_by :: "int \<Rightarrow> int \<Rightarrow> job \<Rightarrow> bool" where
  "owned_by i uid r = (job_id r = i \<and> user_id r = Some uid)"

text \<open>
  \<^verbatim>\<open>INSERT INTO job_applications (user_id, company_name, ..., follow_up_date) VALUES (...) RETURNING *\<close>.
  The values must be accepted by their columns (\<open>ok\<close>), \<^verbatim>\<open>company_name\<close> and
  \<^verbatim>\<open>job_title\<close> are \<^verbatim>\<open>NOT NULL\<close>, and \<^verbatim>\<open>user_id\<close> references \<^verbatim>\<open>users(id)\<close>. The key comes
  from the sequence and both timestamps default to the current time. A failed statement
  stores no row (a sequence value it may have consumed is not modelled).
\<close>

definition insert_job ::
  "(job_values \<Rightarrow> bool) \<Rightarrow> db \<Rightarrow> nat \<Rightarrow> int \<Rightarrow> job_values \<Rightarrow> db_error + (job \<times> db)" where
  "insert_job ok d now uid v =
     (if \<not> ok v then Inl DataException
      else if company_name v = None \<or> job_title v = None then Inl NotNullViolation
      else if uid \<notin> set (map users_id (users d)) then Inl ForeignKeyViolation
      else
        let i = job_applications_id_seq d + 1;
            row = \<lparr>company_name = company_name v, job_title = job_title v,
                   job_url = job_url v, location = location v,
                   salary_range = salary_range v, application_date = application_date v,
                   status = status v, description = description v,
                   requirements = requirements v, notes_text = notes_text v,
                   contact_person = contact_person v, contact_email = contact_email v,
                   follow_up_date = follow_up_date v,
                   job_id = i, user_id = Some uid, created_at = now, updated_at = now\<rparr>
        in Inr (row, d\<lparr>job_applications := job_applications d @ [row],
                        job_applications_id_seq := i\<rparr>))"

text \<open>The SET clause of the UPDATE statement, applied to one row.\<close>

definition set_values :: "job_values \<Rightarrow> nat \<Rightarrow> job \<Rightarrow> job" where
  "set_values v now r =
     r\<lparr>company_name := company_name v, job_title := job_title v, job_url := job_url v,
       location := location v, salary_range := salary_range v,
       application_date := application_date v, status := status v,
       description := description v, requirements := requirements v,
       notes_text := notes_text v, contact_person := contact_person v,
       contact_email := contact_email v, follow_up_date := follow_up_date v,
       updated_at := now\<rparr>"

text \<open>
  \<^verbatim>\<open>UPDATE job_applications SET ... WHERE id = $14 AND user_id = $15 RETURNING *\<close>:
  the rows returned are the rows as updated.
\<close>

definition update_job_rows ::
  "(job_values \<Rightarrow> bool) \<Rightarrow> db \<Rightarrow> nat \<Rightarrow> job_values \<Rightarrow> int \<Rightarrow> int \<Rightarrow> db_error + (job list \<times> db)" where
  "update_job_rows ok d now v i uid =
     (if \<not> ok v then Inl DataException
      else if filter (owned_by i uid) (job_applications d) \<noteq> [] \<and>
              (company_name v = None \<or> job_title v = None) then Inl NotNullViolation
      else
        let rows = map (\<lambda>r. if owned_by i uid r then set_values v now r else r)
                       (job_applications d)
        in Inr (filter (owned_by i uid) rows, d\<lparr>job_applications := rows\<rparr>))"

text \<open>\<^verbatim>\<open>DELETE FROM job_applications WHERE id = $1 AND user_id = $2 RETURNING *\<close>\<close>

definition delete_job_rows :: "db \<Rightarrow> int \<Rightarrow> int \<Rightarrow> job list \<times> db" where
  "delete_job_rows d i uid =
     (filter (owned_by i uid) (job_applications d),
      d\<lparr>job_applications := filter (\<lambda>r. \<not> owned_by i uid r) (job_applications d)\<rparr>)"

text \<open>
  \<^verbatim>\<open>INSERT INTO users (username, email, password_hash) VALUES ($1, $2, $3) RETURNING ...\<close>;
  \<^verbatim>\<open>username\<close> and \<^verbatim>\<open>email\<close> are \<^verbatim>\<open>UNIQUE\<close>.
\<close>

definition insert_user ::
  "(string \<Rightarrow> string \<Rightarrow> string \<Rightarrow> bool) \<Rightarrow> db \<Rightarrow> nat \<Rightarrow> string \<Rightarrow> string \<Rightarrow> string
     \<Rightarrow> db_error + (user_row \<times> db)" where
  "insert_user ok d now name mail hash =
     (if \<not> ok name mail hash then Inl DataException
      else if name \<in> set (map username (users d)) \<or> mail \<in> set (map email (users d))
        then Inl UniqueViolation
      else
        let i = users_id_seq d + 1;
            row = \<lparr>users_id = i, username = name, email = mail, password_hash = hash,
                   users_created_at = now, users_updated_at = now\<rparr>
        in Inr (row, d\<lparr>users := users d @ [row], users_id_seq := i\<rparr>))"

subsection \<open>Pattern matching, ordering and paging of the store\<close>

text \<open>ASCII case folding, as \<^verbatim>\<open>ILIKE\<close> applies to both the pattern and the text.\<close>

definition lower :: "char \<Rightarrow> char" where
  "lower c =
     (let n = (of_char c :: nat) in if 65 \<le> n \<and> n \<le> 90 then char_of (n + 32) else c)"

text \<open>
  \<^verbatim>\<open>text LIKE pattern\<close>: \<^verbatim>\<open>%\<close> stands for any run of characters, \<^verbatim>\<open>_\<close> for any one
  character, and a backslash makes the next character of the pattern literal. (A pattern
  that ends in a lone backslash is an error in PostgreSQL; \<open>list_jobs\<close> never builds one,
  since its pattern ends in \<^verbatim>\<open>%\<close>, and the equation answers \<open>False\<close> there.)
\<close>

fun like_match :: "string \<Rightarrow> string \<Rightarrow> bool" where
  "like_match [] s = (s = [])"
| "like_match (p # ps) s =
     (if p = CHR ''%'' then
        like_match ps s \<or> (case s of [] \<Rightarrow> False | c # cs \<Rightarrow> like_match (p # ps) cs)
      else if p = CHR 0x5C then
        (case ps of
           [] \<Rightarrow> False
         | q # qs \<Rightarrow> (case s of [] \<Rightarrow> False | c # cs \<Rightarrow> c = q \<and> like_match qs cs))
      else
        (case s of [] \<Rightarrow> False | c # cs \<Rightarrow> (p = CHR ''_'' \<or> c = p) \<and> like_match ps cs))"

text \<open>\<^verbatim>\<open>column ILIKE pattern\<close>; NULL matches nothing.\<close>

definition ilike :: "string option \<Rightarrow> string \<Rightarrow> bool" where
  "ilike col pattern =
     (case col of None \<Rightarrow> False | Some s \<Rightarrow> like_match (map lower pattern) (map lower s))"

text \<open>
  \<^verbatim>\<open>ORDER BY created_at DESC\<close>. The order of rows with equal timestamps is left open by
  SQL; here the later row of the table comes first.
\<close>

definition order_by_created_at_desc :: "job list \<Rightarrow> job list" where
  "order_by_created_at_desc rows = rev (sort_key created_at rows)"

text \<open>\<^verbatim>\<open>LIMIT $n OFFSET $m\<close>: PostgreSQL raises on a negative limit or offset.\<close>

definition limit_offset :: "int \<Rightarrow> int \<Rightarrow> 'a list \<Rightarrow> db_error + 'a list" where
  "limit_offset limit off rows =
     (if limit < 0 \<or> off < 0 then Inl DataException
      else Inr (take (nat limit) (drop (nat off) rows)))"

text \<open>
  \<^verbatim>\<open>Math.ceil(total / limit)\<close>. Division by zero gives Infinity or NaN, which
  \<^verbatim>\<open>res.json\<close> writes as \<^verbatim>\<open>null\<close>: that is \<open>None\<close>.
\<close>

definition ceil_div :: "nat \<Rightarrow> int \<Rightarrow> int option" where
  "ceil_div n limit =
     (if limit = 0 then None else Some \<lceil>(of_nat n :: rat) / of_int limit\<rceil>)"

subsection \<open>Job endpoints\<close>

text \<open>\<^verbatim>\<open>GET /api/jobs\<close>\<close>

record list_query =
  q_status :: jsval
  q_company :: jsval
  q_page :: numparam
  q_limit :: numparam

record pagination =
  p_page :: int
  p_limit :: int
  p_total :: nat
  p_totalPages :: "int option"

record job_list =
  jobs :: "job list"
  pagination :: pagination

text \<open>
  \<open>whereConditions\<close> with their parameters: the rows that both the page query and the
  count query select are those of the user that satisfy every condition.
\<close>

definition whereConditions :: "list_query \<Rightarrow> (job \<Rightarrow> bool) list" where
  "whereConditions q =
     (if truthy (q_status q) then [\<lambda>r. status r = Some (text_of (q_status q))] else []) @
     (if truthy (q_company q)
      then [\<lambda>r. ilike (company_name r) (''%'' @ text_of (q_company q) @ ''%'')] else [])"

definition matching :: "db \<Rightarrow> int \<Rightarrow> list_query \<Rightarrow> job list" where
  "matching d uid q =
     filter (\<lambda>r. user_id r = Some uid \<and> list_all (\<lambda>c. c r) (whereConditions q))
            (job_applications d)"

text \<open>
  The handler computes \<^verbatim>\<open>offset = (page - 1) * limit\<close> and sends \<^verbatim>\<open>limit\<close> and
  \<^verbatim>\<open>offset\<close> to the store as they are. When page or limit is NaN the offset is NaN, which
  the store refuses like any text that is no number: the query raises. The count query
  runs after the page query, with the same conditions.
\<close>

definition list_jobs :: "db \<Rightarrow> int \<Rightarrow> list_query \<Rightarrow> job_list response" where
  "list_jobs d uid q =
     (case (js_number (q_page q) 1, js_number (q_limit q) 20) of
        (Some page, Some limit) \<Rightarrow>
          (let offset = (page - 1) * limit in
           case limit_offset limit offset (order_by_created_at_desc (matching d uid q)) of
             Inl e \<Rightarrow> internal_error
           | Inr rows \<Rightarrow>
               (let total = length (matching d uid q) in
                Success 200
                  \<lparr>jobs = rows,
                   pagination = \<lparr>p_page = page, p_limit = limit, p_total = total,
                                 p_totalPages = ceil_div total limit\<rparr>\<rparr>))
      | _ \<Rightarrow> internal_error)"

text \<open>\<^verbatim>\<open>GET /api/jobs/:id\<close>\<close>

definition get_job :: "db \<Rightarrow> int \<Rightarrow> idparam \<Rightarrow> job response" where
  "get_job d uid ident =
     (case ident of
        IdNaN \<Rightarrow> Failure 400 ''Invalid job ID''
      | IdNotInteger \<Rightarrow> internal_error
      | IdInt i \<Rightarrow>
          (case filter (owned_by i uid) (job_applications d) of
             [] \<Rightarrow> Failure 404 ''Job application not found''
           | r # _ \<Rightarrow> Success 200 r))"

text \<open>
  \<^verbatim>\<open>POST /api/jobs\<close>. \<open>create_params\<close> is the parameter array of the INSERT statement
  after the user id: \<^verbatim>\<open>status\<close> has the default \<^verbatim>\<open>'applied'\<close>, and the two dates go
  through \<^verbatim>\<open>|| null\<close> (the constants \<^verbatim>\<open>app_date\<close> and \<^verbatim>\<open>followup_date\<close>).
\<close>

definition create_params :: "body \<Rightarrow> job_values" where
  "create_params b =
     (let status_field = default_to (b ''status'') (JString ''applied'');
          app_date = or_null (b ''application_date'');
          followup_date = or_null (b ''follow_up_date'')
      in \<lparr>company_name = prepareValue (b ''company_name''),
          job_title = prepareValue (b ''job_title''),
          job_url = prepareValue (b ''job_url''),
          location = prepareValue (b ''location''),
          salary_range = prepareValue (b ''salary_range''),
          application_date = prepareValue app_date,
          status = prepareValue status_field,
          description = prepareValue (b ''description''),
          requirements = prepareValue (b ''requirements''),
          notes_text = prepareValue (b ''notes''),
          contact_person = prepareValue (b ''contact_person''),
          contact_email = prepareValue (b ''contact_email''),
          follow_up_date = prepareValue followup_date\<rparr>)"

definition create_job ::
  "(job_values \<Rightarrow> bool) \<Rightarrow> db \<Rightarrow> nat \<Rightarrow> int \<Rightarrow> body \<Rightarrow> job response \<times> db" where
  "create_job ok d now uid b =
     (if \<not> truthy (b ''company_name'') \<or> \<not> truthy (b ''job_title'')
      then (Failure 400 ''Company name and job title are required'', d)
      else
        case insert_job ok d now uid (create_params b) of
          Inl e \<Rightarrow> (internal_error, d)
        | Inr (row, d') \<Rightarrow> (Success 201 row, d'))"

text \<open>
  \<^verbatim>\<open>PUT /api/jobs/:id\<close>. \<open>update_params\<close> is the parameter array of the UPDATE statement
  before the id and the user id: \<^verbatim>\<open>status\<close> has no default here.
\<close>

definition update_params :: "body \<Rightarrow> job_values" where
  "update_params b =
     (let app_date = or_null (b ''application_date'');
          followup_date = or_null (b ''follow_up_date'')
      in \<lparr>company_name = prepareValue (b ''company_name''),
          job_title = prepareValue (b ''job_title''),
          job_url = prepareValue (b ''job_url''),
          location = prepareValue (b ''location''),
          salary_range = prepareValue (b ''salary_range''),
          application_date = prepareValue app_date,
          status = prepareValue (b ''status''),
          description = prepareValue (b ''description''),
          requirements = prepareValue (b ''requirements''),
          notes_text = prepareValue (b ''notes''),
          contact_person = prepareValue (b ''contact_person''),
          contact_email = prepareValue (b ''contact_email''),
          follow_up_date = prepareValue followup_date\<rparr>)"

definition update_job ::
  "(job_values \<Rightarrow> bool) \<Rightarrow> db \<Rightarrow> nat \<Rightarrow> int \<Rightarrow> idparam \<Rightarrow> body \<Rightarrow> job response \<times> db" where
  "update_job ok d now uid ident b =
     (if ident = IdNaN then (Failure 400 ''Invalid job ID'', d)
      else if \<not> truthy (b ''company_name'') \<or> \<not> truthy (b ''job_title'')
      then (Failure 400 ''Company name and job title are required'', d)
      else
        case ident of
          IdInt i \<Rightarrow>
            (case update_job_rows ok d now (update_params b) i uid of
               Inl e \<Rightarrow> (internal_error, d)
             | Inr (rows, d') \<Rightarrow>
                 (case rows of
                    [] \<Rightarrow> (Failure 404 ''Job application not found'', d')
                  | r # _ \<Rightarrow> (Success 200 r, d')))
        | _ \<Rightarrow> (internal_error, d))"

text \<open>\<^verbatim>\<open>DELETE /api/jobs/:id\<close>; the reply carries a message and the deleted row.\<close>

definition delete_job :: "db \<Rightarrow> int \<Rightarrow> idparam \<Rightarrow> (string \<times> job) response \<times> db" where
  "delete_job d uid ident =
     (case ident of
        IdNaN \<Rightarrow> (Failure 400 ''Invalid job ID'', d)
      | IdNotInteger \<Rightarrow> (internal_error, d)
      | IdInt i \<Rightarrow>
          (case delete_job_rows d i uid of
             ([], d') \<Rightarrow> (Failure 404 ''Job application not found'', d')
           | (r # _, d') \<Rightarrow> (Success 200 (''Job application deleted successfully'', r), d')))"

text \<open>\<^verbatim>\<open>GET /api/stats\<close>\<close>

record stats_row =
  st_total :: nat
  applied :: nat
  interview :: nat
  offer :: nat
  rejected :: nat
  withdrawn :: nat

text \<open>\<^verbatim>\<open>COUNT(CASE WHEN status = s THEN 1 END)\<close>\<close>

definition count_status :: "string \<Rightarrow> job list \<Rightarrow> nat" where
  "count_status s rows = length (filter (\<lambda>r. status r = Some s) rows)"

definition stats :: "db \<Rightarrow> int \<Rightarrow> stats_row response" where
  "stats d uid =
     (let rows = filter (\<lambda>r. user_id r = Some uid) (job_applications d) in
      Success 200
        \<lparr>st_total = length rows,
         applied = count_status ''applied'' rows,
         interview = count_status ''interview'' rows,
         offer = count_status ''offer'' rows,
         rejected = count_status ''rejected'' rows,
         withdrawn = count_status ''withdrawn'' rows\<rparr>)"

subsection \<open>Auth endpoints\<close>

text \<open>
  The reply of register and login. The token stands for the claims that \<^verbatim>\<open>jwt.sign\<close>
  signs, \<^verbatim>\<open>{userId, username}\<close>; login's reply has no \<^verbatim>\<open>created_at\<close>.
\<close>

record auth_user =
  au_id :: int
  au_username :: string
  au_email :: string
  au_created_at :: "nat option"

record auth_reply =
  message :: string
  token :: "int \<times> string"
  user :: auth_user

text \<open>
  \<^verbatim>\<open>POST /api/auth/register\<close>. \<open>hash\<close> is \<^verbatim>\<open>bcrypt.hash(_, 12)\<close> with the salt it draws for
  this call; \<open>ok\<close> says which values the columns of \<^verbatim>\<open>users\<close> accept.
\<close>

definition register ::
  "(string \<Rightarrow> string \<Rightarrow> string \<Rightarrow> bool) \<Rightarrow> (string \<Rightarrow> string) \<Rightarrow> db \<Rightarrow> nat \<Rightarrow> body
     \<Rightarrow> auth_reply response \<times> db" where
  "register ok hash d now b =
     (if \<not> truthy (b ''username'') \<or> \<not> truthy (b ''email'') \<or> \<not> truthy (b ''password'')
      then (Failure 400 ''Username, email, and password are required'', d)
      else if length (text_of (b ''password'')) < 6
      then (Failure 400 ''Password must be at least 6 characters long'', d)
      else
        let existingUser =
              filter (\<lambda>u. Some (email u) = prepareValue (b ''email'') \<or>
                          Some (username u) = prepareValue (b ''username'')) (users d)
        in if length existingUser > 0
           then (Failure 409 ''User with this email or username already exists'', d)
           else
             let passwordHash = hash (text_of (b ''password'')) in
             case insert_user ok d now (text_of (b ''username'')) (text_of (b ''email''))
                    passwordHash of
               Inl e \<Rightarrow> (internal_error, d)
             | Inr (newUser, d') \<Rightarrow>
                 (Success 201
                    \<lparr>message = ''User created successfully'',
                     token = (users_id newUser, username newUser),
                     user = \<lparr>au_id = users_id newUser, au_username = username newUser,
                             au_email = email newUser,
                             au_created_at = Some (users_created_at newUser)\<rparr>\<rparr>, d'))"


subsection \<open>Reachable stores and the constraints of the schema\<close>

text \<open>
  The stores the application can be in: the empty tables, changed by the four handlers
  that write. Every request, accepted or refused, leads to a reachable store.
\<close>

inductive reachable :: "db \<Rightarrow> bool" where
  reachable_empty: "reachable empty_db"
| reachable_register: "reachable d \<Longrightarrow> reachable (snd (register okU hash d now b))"
| reachable_create: "reachable d \<Longrightarrow> reachable (snd (create_job ok d now uid b))"
| reachable_update: "reachable d \<Longrightarrow> reachable (snd (update_job ok d now uid ident b))"
| reachable_delete: "reachable d \<Longrightarrow> reachable (snd (delete_job d uid ident))"

text \<open>
  The keys of the schema: \<^verbatim>\<open>id SERIAL PRIMARY KEY\<close> in both tables (drawn from the
  sequences), and \<^verbatim>\<open>UNIQUE\<close> on \<^verbatim>\<open>username\<close> and \<^verbatim>\<open>email\<close>.
\<close>

definition keys_hold :: "db \<Rightarrow> bool" where
  "keys_hold d =
     (distinct (map job_id (job_applications d)) \<and>
      list_all (\<lambda>r. job_id r \<le> job_applications_id_seq d) (job_applications d) \<and>
      distinct (map users_id (users d)) \<and>
      list_all (\<lambda>u. users_id u \<le> users_id_seq d) (users d) \<and>
      distinct (map username (users d)) \<and>
      distinct (map email (users d)))"

subsection \<open>The five statuses, and the literal substring match the specification describes\<close>

definition status_values :: "string list" where
  "status_values = [''applied'', ''interview'', ''offer'', ''rejected'', ''withdrawn'']"

fun starts_with :: "'a list \<Rightarrow> 'a list \<Rightarrow> bool" where
  "starts_with [] s = True"
| "starts_with (x # xs) [] = False"
| "starts_with (x # xs) (c # cs) = (x = c \<and> starts_with xs cs)"

fun is_substring :: "'a list \<Rightarrow> 'a list \<Rightarrow> bool" where
  "is_substring xs [] = (xs = [])"
| "is_substring xs (c # cs) = (starts_with xs (c # cs) \<or> is_substring xs cs)"

text \<open>
  The company filter as the specification words it, a case-insensitive substring match
  on the company name, to compare with \<open>ilike\<close>.
\<close>

definition spec_company_match :: "string option \<Rightarrow> string \<Rightarrow> bool" where
  "spec_company_match col company =
     (case col of None \<Rightarrow> False | Some s \<Rightarrow> is_substring (map lower company) (map lower s))"

subsection \<open>Sample data\<close>

text \<open>Two users, a job of the first one, and stand-ins for bcrypt.\<close>

definition toy_hash :: "string \<Rightarrow> string" where
  "toy_hash pw = ''$2a$12$'' @ pw"


definition ann :: user_row where
  "ann = \<lparr>users_id = 1, username = ''ann'', email = ''ann@example.org'',
          password_hash = toy_hash ''correct horse'', users_created_at = 10,
          users_updated_at = 10\<rparr>"

definition bob :: user_row where
  "bob = \<lparr>users_id = 2, username = ''bob'', email = ''bob@example.org'',
          password_hash = toy_hash ''battery staple'', users_created_at = 11,
          users_updated_at = 11\<rparr>"

definition acme_job :: job where
  "acme_job =
     \<lparr>company_name = Some ''Acme'', job_title = Some ''Engineer'',
      job_url = Some ''https://acme.example/jobs/1'', location = Some ''Berlin'',
      salary_range = None, application_date = Some ''2024-01-05'',
      status = Some ''applied'', description = None, requirements = None,
      notes_text = Some ''referred by a friend'', contact_person = None,
      contact_email = None, follow_up_date = None,
      job_id = 1, user_id = Some 1, created_at = 20, updated_at = 20\<rparr>"

definition sample_db :: db where
  "sample_db = \<lparr>users = [ann, bob], users_id_seq = 2,
                job_applications = [acme_job], job_applications_id_seq = 1\<rparr>"

definition acme_body :: body where
  "acme_body = no_fields(''company_name'' := JString ''Acme'', ''job_title'' := JString ''Engineer'')"

definition ann_body :: body where
  "ann_body = no_fields(''username'' := JString ''ann'', ''email'' := JString ''ann@example.org'',
                        ''password'' := JString ''correct horse'')"

definition on_hold_body :: body where
  "on_hold_body = acme_body(''status'' := JString ''on hold'')"

text \<open>The store after ann registers and creates a job whose status is \<^verbatim>\<open>on hold\<close>.\<close>

definition on_hold_db :: db where
  "on_hold_db =
     snd (create_job (\<lambda>_. True)
            (snd (register (\<lambda>_ _ _. True) toy_hash empty_db 10 ann_body)) 20 1 on_hold_body)"

definition on_hold_job :: job where
  "on_hold_job =
     \<lparr>company_name = Some ''Acme'', job_title = Some ''Engineer'',
      job_url = None, location = None, salary_range = None, application_date = None,
      status = Some ''on hold'', description = None, requirements = None,
      notes_text = None, contact_person = None, contact_email = None, follow_up_date = None,
      job_id = 2, user_id = Some 1, created_at = 30, updated_at = 30\<rparr>"

text \<open>A request that replaces ann's job and sends a blank URL, and the row it leaves.\<close>

definition blank_url_body :: body where
  "blank_url_body = acme_body(''job_url'' := JString [], ''status'' := JString ''interview'')"

definition blank_url_job :: job where
  "blank_url_job =
     \<lparr>company_name = Some ''Acme'', job_title = Some ''Engineer'',
      job_url = Some [], location = None, salary_range = None, application_date = None,
      status = Some ''interview'', description = None, requirements = None,
      notes_text = None, contact_person = None, contact_email = None, follow_up_date = None,
      job_id = 1, user_id = Some 1, created_at = 20, updated_at = 30\<rparr>"

text \<open>A character that \<^verbatim>\<open>LIKE\<close> reads as itself.\<close>

definition plain :: "char \<Rightarrow> bool" where
  "plain c = (c \<noteq> CHR ''%'' \<and> c \<noteq> CHR ''_'' \<and> c \<noteq> CHR 0x5C)"

text \<open>The requests that lead from the empty store to \<open>sample_db\<close>.\<close>

definition bob_body :: body where
  "bob_body = no_fields(''username'' := JString ''bob'', ''email'' := JString ''bob@example.org'',
                        ''password'' := JString ''battery staple'')"

definition acme_full_body :: body where
  "acme_full_body =
     acme_body(''job_url'' := JString ''https://acme.example/jobs/1'',
               ''location'' := JString ''Berlin'',
               ''application_date'' := JString ''2024-01-05'',
               ''notes'' := JString ''referred by a friend'',
               ''follow_up_date'' := JString [])"

section \<open>Properties\<close>

subsection \<open>Rows selected by a key\<close>

lemma filter_key_unique:
  "distinct (map f xs) \<Longrightarrow> x \<in> set xs \<Longrightarrow> filter (\<lambda>y. f y = f x) xs = [x]"
proof (induction xs)
  case Nil
  then show ?case by simp
next
  case (Cons a xs)
  show ?case
  proof (cases "a = x")
    case True
    with Cons.prems have "\<forall>y\<in>set xs. f y \<noteq> f x" by (auto simp: image_iff)
    then have "filter (\<lambda>y. f y = f x) xs = []" by (simp add: filter_empty_conv)
    with True show ?thesis by simp
  next
    case False
    with Cons.prems have "x \<in> set xs" "f a \<noteq> f x" by auto
    with Cons show ?thesis by simp
  qed
qed

lemma set_values_keeps [simp]:
  "job_id (set_values v now r) = job_id r"
  "user_id (set_values v now r) = user_id r"
  "created_at (set_values v now r) = created_at r"
  "owned_by i uid (set_values v now r) = owned_by i uid r"
  by (simp_all add: set_values_def owned_by_def)

lemma map_job_id_update:
  "map (job_id \<circ> (\<lambda>r. if owned_by i uid r then set_values v now r else r)) rows = map job_id rows"
  by (induction rows) auto

subsection \<open>The keys hold in every reachable store\<close>

lemma keys_hold_empty: "keys_hold empty_db"
  by (simp add: keys_hold_def empty_db_def)

lemma keys_hold_register: "keys_hold d \<Longrightarrow> keys_hold (snd (register okU hash d now b))"
  by (auto simp: keys_hold_def register_def insert_user_def Let_def list_all_iff split: if_splits)

lemma keys_hold_create: "keys_hold d \<Longrightarrow> keys_hold (snd (create_job ok d now uid b))"
  by (auto simp: keys_hold_def create_job_def insert_job_def Let_def list_all_iff split: if_splits)

lemma keys_hold_update_rows:
  assumes "keys_hold d" "update_job_rows ok d now v i uid = Inr (rows, d')"
  shows "keys_hold d'"
proof -
  from assms(2) have d': "d' = d\<lparr>job_applications :=
      map (\<lambda>r. if owned_by i uid r then set_values v now r else r) (job_applications d)\<rparr>"
    by (auto simp: update_job_rows_def Let_def split: if_splits)
  from assms(1) show ?thesis
    unfolding d' by (auto simp: keys_hold_def map_job_id_update list_all_iff)
qed

lemma update_job_store:
  "snd (update_job ok d now uid ident b) = d \<or>
   (\<exists>i rows. update_job_rows ok d now (update_params b) i uid
              = Inr (rows, snd (update_job ok d now uid ident b)))"
  by (auto simp: update_job_def split: idparam.splits sum.splits list.splits)

lemma keys_hold_update: "keys_hold d \<Longrightarrow> keys_hold (snd (update_job ok d now uid ident b))"
  using update_job_store[of ok d now uid ident b] keys_hold_update_rows by metis

lemma keys_hold_delete: "keys_hold d \<Longrightarrow> keys_hold (snd (delete_job d uid ident))"
  by (auto simp: keys_hold_def delete_job_def delete_job_rows_def list_all_iff distinct_map_filter
      split: idparam.splits list.splits)

lemma reachable_keys_hold: "reachable d \<Longrightarrow> keys_hold d"
  by (induction rule: reachable.induct)
     (simp_all add: keys_hold_empty keys_hold_register keys_hold_create keys_hold_update
        keys_hold_delete)

lemma reachable_job_ids_distinct: "reachable d \<Longrightarrow> distinct (map job_id (job_applications d))"
  using reachable_keys_hold by (auto simp: keys_hold_def)

lemma reachable_emails_distinct: "reachable d \<Longrightarrow> distinct (map email (users d))"
  using reachable_keys_hold by (auto simp: keys_hold_def)

text \<open>The sample store is one of them.\<close>

lemma sample_db_reachable: "reachable sample_db"
proof -
  let ?d1 = "snd (register (\<lambda>_ _ _. True) toy_hash empty_db 10 ann_body)"
  let ?d2 = "snd (register (\<lambda>_ _ _. True) toy_hash ?d1 11 bob_body)"
  let ?d3 = "snd (create_job (\<lambda>_. True) ?d2 20 1 acme_full_body)"
  have "reachable ?d3" by (intro reachable.intros)
  moreover have "?d3 = sample_db"
    by (simp add: register_def insert_user_def create_job_def insert_job_def create_params_def
          ann_body_def bob_body_def acme_full_body_def acme_body_def no_fields_def
          empty_db_def sample_db_def ann_def bob_def acme_job_def or_null_def Let_def)
  ultimately show ?thesis by simp
qed

subsection \<open>Login\<close>






subsection \<open>Register\<close>

text \<open>
  Claim C8. Register answers 400 and leaves the store as it was when the username, the
  email or the password is missing (absent, null or empty) or the password has fewer
  than 6 characters. A request that passes these checks answers 409 and leaves the
  store as it was when some user already has the same email or the same username.
  (The checks run in this order, so a request that fails both gets the 400.)
\<close>

theorem register_rejects_invalid_and_duplicate:
  "(b ''username'' \<in> {JUndefined, JNull, JString []} \<or>
    b ''email'' \<in> {JUndefined, JNull, JString []} \<or>
    b ''password'' \<in> {JUndefined, JNull, JString []} \<or>
    length (text_of (b ''password'')) < 6
      \<longrightarrow> (\<exists>msg. register ok hash d now b = (Failure 400 msg, d))) \<and>
   (b ''username'' = JString name \<and> name \<noteq> [] \<and> b ''email'' = JString mail \<and> mail \<noteq> [] \<and>
    b ''password'' = JString pw \<and> 6 \<le> length pw \<and>
    (\<exists>u \<in> set (users d). email u = mail \<or> username u = name)
      \<longrightarrow> register ok hash d now b =
            (Failure 409 ''User with this email or username already exists'', d))"
proof (intro conjI impI)
  assume "b ''username'' \<in> {JUndefined, JNull, JString []} \<or>
    b ''email'' \<in> {JUndefined, JNull, JString []} \<or>
    b ''password'' \<in> {JUndefined, JNull, JString []} \<or>
    length (text_of (b ''password'')) < 6"
  then show "\<exists>msg. register ok hash d now b = (Failure 400 msg, d)"
    by (auto simp: register_def)
next
  assume a: "b ''username'' = JString name \<and> name \<noteq> [] \<and> b ''email'' = JString mail \<and> mail \<noteq> [] \<and>
    b ''password'' = JString pw \<and> 6 \<le> length pw \<and>
    (\<exists>u \<in> set (users d). email u = mail \<or> username u = name)"
  then obtain u where u: "u \<in> set (users d)" "email u = mail \<or> username u = name" by blast
  then have "filter (\<lambda>u. email u = mail \<or> username u = name) (users d) \<noteq> []"
    by (auto simp: filter_empty_conv)
  with a show "register ok hash d now b =
            (Failure 409 ''User with this email or username already exists'', d)"
    by (auto simp: register_def)
qed

theorem register_rejects_invalid_and_duplicate_witness:
  "(\<exists>msg. register (\<lambda>_ _ _. True) toy_hash sample_db 30
            (no_fields(''username'' := JString ''carol'', ''email'' := JString ''carol@example.org'',
                       ''password'' := JString ''12345'')) = (Failure 400 msg, sample_db)) \<and>
   register (\<lambda>_ _ _. True) toy_hash sample_db 30
      (no_fields(''username'' := JString ''carol'', ''email'' := JString ''ann@example.org'',
                 ''password'' := JString ''123456''))
     = (Failure 409 ''User with this email or username already exists'', sample_db)"
  using register_rejects_invalid_and_duplicate
          [where b = "no_fields(''username'' := JString ''carol'', ''email'' := JString ''carol@example.org'',
                       ''password'' := JString ''12345'')"
             and ok = "\<lambda>_ _ _. True" and hash = toy_hash and d = sample_db and now = 30]
        register_rejects_invalid_and_duplicate
          [where b = "no_fields(''username'' := JString ''carol'', ''email'' := JString ''ann@example.org'',
                 ''password'' := JString ''123456'')"
             and ok = "\<lambda>_ _ _. True" and hash = toy_hash and d = sample_db and now = 30
             and name = "''carol''" and mail = "''ann@example.org''" and pw = "''123456''"]
  by (simp add: sample_db_def ann_def bob_def)

subsection \<open>Create\<close>

text \<open>
  Claim C9. Create answers 400 whenever the company name or the job title is missing
  (absent, null or empty), whatever the other fields are, and the store stays as it was:
  no record is persisted.
\<close>

theorem create_job_requires_company_and_title:
  assumes "b ''company_name'' \<in> {JUndefined, JNull, JString []} \<or>
           b ''job_title'' \<in> {JUndefined, JNull, JString []}"
  shows "create_job ok d now uid b =
           (Failure 400 ''Company name and job title are required'', d)"
  using assms by (auto simp: create_job_def)

theorem create_job_requires_company_and_title_witness:
  "create_job (\<lambda>_. True) sample_db 30 1
     (no_fields(''company_name'' := JString [], ''job_title'' := JString ''Engineer'',
                ''status'' := JString ''offer''))
   = (Failure 400 ''Company name and job title are required'', sample_db)"
  using create_job_requires_company_and_title
    [of "no_fields(''company_name'' := JString [], ''job_title'' := JString ''Engineer'',
                ''status'' := JString ''offer'')" "\<lambda>_. True" sample_db 30 1]
  by simp

subsection \<open>List: pagination\<close>

lemma length_order_by [simp]: "length (order_by_created_at_desc rows) = length rows"
  by (simp add: order_by_created_at_desc_def)







subsection \<open>Stats\<close>

lemma count_status_partition:
  "count_status ''applied'' rows + count_status ''interview'' rows + count_status ''offer'' rows +
   count_status ''rejected'' rows + count_status ''withdrawn'' rows +
   length (filter (\<lambda>r. status r \<notin> Some ` set status_values) rows) = length rows"
  by (induction rows) (auto simp: count_status_def status_values_def)

lemma matching_unfiltered:
  "\<not> truthy (q_status q) \<Longrightarrow> \<not> truthy (q_company q) \<Longrightarrow>
   matching d uid q = filter (\<lambda>r. user_id r = Some uid) (job_applications d)"
  by (simp add: matching_def whereConditions_def)

lemma list_jobs_total:
  "list_jobs d uid q = Success c reply \<Longrightarrow> p_total (pagination reply) = length (matching d uid q)"
  by (auto simp: list_jobs_def Let_def split: option.splits sum.splits)

text \<open>
  Claim C4, as stated, fails in a reachable store: after ann registers and creates a job
  with status \<^verbatim>\<open>on hold\<close>, Stats reports total 1 and 0 for each of the five statuses.
\<close>

theorem stats_unenumerated_counterexample:
  "reachable on_hold_db \<and>
   stats on_hold_db 1 =
     Success 200 \<lparr>st_total = 1, applied = 0, interview = 0, offer = 0, rejected = 0, withdrawn = 0\<rparr>"
proof
  show "reachable on_hold_db"
    unfolding on_hold_db_def by (intro reachable.intros)
  show "stats on_hold_db 1 =
     Success 200 \<lparr>st_total = 1, applied = 0, interview = 0, offer = 0, rejected = 0, withdrawn = 0\<rparr>"
    by (simp add: on_hold_db_def on_hold_body_def acme_body_def ann_body_def no_fields_def
          register_def insert_user_def create_job_def insert_job_def create_params_def
          empty_db_def stats_def count_status_def or_null_def Let_def)
qed

text \<open>
  Claim C4, amended. In every store, Stats answers 200 and its total equals the total
  that List reports with no filters. The five per-status counts add up to the number
  of the user's records whose status is one of the five values: together with the
  records of any other status (or none) they add up to the total, and they add up to
  the total exactly when each record of the user has one of the five statuses.
\<close>

theorem stats_counts_and_total:
  "\<exists>s. stats d uid = Success 200 s \<and>
        applied s + interview s + offer s + rejected s + withdrawn s +
          length (filter (\<lambda>r. user_id r = Some uid \<and> status r \<notin> Some ` set status_values)
                    (job_applications d)) = st_total s \<and>
        (applied s + interview s + offer s + rejected s + withdrawn s = st_total s) =
          (\<forall>r \<in> set (job_applications d).
              user_id r = Some uid \<longrightarrow> status r \<in> Some ` set status_values) \<and>
        (\<forall>q reply. \<not> truthy (q_status q) \<and> \<not> truthy (q_company q) \<and>
                   list_jobs d uid q = Success 200 reply
                     \<longrightarrow> p_total (pagination reply) = st_total s)"
proof -
  let ?rows = "filter (\<lambda>r. user_id r = Some uid) (job_applications d)"
  let ?s = "\<lparr>st_total = length ?rows,
         applied = count_status ''applied'' ?rows,
         interview = count_status ''interview'' ?rows,
         offer = count_status ''offer'' ?rows,
         rejected = count_status ''rejected'' ?rows,
         withdrawn = count_status ''withdrawn'' ?rows\<rparr>"
  let ?other = "length (filter (\<lambda>r. user_id r = Some uid \<and> status r \<notin> Some ` set status_values)
                    (job_applications d))"
  have s: "stats d uid = Success 200 ?s" by (simp add: stats_def Let_def)
  have other: "length (filter (\<lambda>r. status r \<notin> Some ` set status_values) ?rows) = ?other"
    by (simp add: conj_commute)
  have part: "applied ?s + interview ?s + offer ?s + rejected ?s + withdrawn ?s + ?other = st_total ?s"
    using count_status_partition[of ?rows] other by simp
  have "(?other = 0) = (\<forall>r \<in> set (job_applications d).
              user_id r = Some uid \<longrightarrow> status r \<in> Some ` set status_values)"
    by (auto simp: filter_empty_conv)
  with part have iff: "(applied ?s + interview ?s + offer ?s + rejected ?s + withdrawn ?s = st_total ?s) =
          (\<forall>r \<in> set (job_applications d).
              user_id r = Some uid \<longrightarrow> status r \<in> Some ` set status_values)"
    by linarith
  have lst: "\<forall>q reply. \<not> truthy (q_status q) \<and> \<not> truthy (q_company q) \<and>
                   list_jobs d uid q = Success 200 reply
                     \<longrightarrow> p_total (pagination reply) = st_total ?s"
    using list_jobs_total matching_unfiltered by fastforce
  from s part iff lst show ?thesis by blast
qed

theorem stats_counts_and_total_witness:
  "\<exists>s. stats sample_db 1 = Success 200 s \<and>
        applied s + interview s + offer s + rejected s + withdrawn s + 0 = st_total s \<and>
        (applied s + interview s + offer s + rejected s + withdrawn s = st_total s) \<and>
        (\<exists>reply. list_jobs sample_db 1
            \<lparr>q_status = JUndefined, q_company = JUndefined, q_page = Omitted, q_limit = Omitted\<rparr>
              = Success 200 reply \<and> p_total (pagination reply) = st_total s)"
proof -
  let ?q = "\<lparr>q_status = JUndefined, q_company = JUndefined, q_page = Omitted, q_limit = Omitted\<rparr>"
  from stats_counts_and_total[of sample_db 1] obtain s where
    s: "stats sample_db 1 = Success 200 s"
    and part: "applied s + interview s + offer s + rejected s + withdrawn s +
          length (filter (\<lambda>r. user_id r = Some 1 \<and> status r \<notin> Some ` set status_values)
                    (job_applications sample_db)) = st_total s"
    and iff: "(applied s + interview s + offer s + rejected s + withdrawn s = st_total s) =
          (\<forall>r \<in> set (job_applications sample_db).
              user_id r = Some 1 \<longrightarrow> status r \<in> Some ` set status_values)"
    and lst: "\<forall>q reply. \<not> truthy (q_status q) \<and> \<not> truthy (q_company q) \<and>
                   list_jobs sample_db 1 q = Success 200 reply
                     \<longrightarrow> p_total (pagination reply) = st_total s"
    by blast
  have ok: "\<forall>r \<in> set (job_applications sample_db).
              user_id r = Some 1 \<longrightarrow> status r \<in> Some ` set status_values"
    by (simp add: sample_db_def acme_job_def status_values_def)
  have z: "length (filter (\<lambda>r. user_id r = Some 1 \<and> status r \<notin> Some ` set status_values)
                    (job_applications sample_db)) = 0"
    by (simp add: sample_db_def acme_job_def status_values_def)
  obtain reply where reply: "list_jobs sample_db 1 ?q = Success 200 reply"
    by (simp add: list_jobs_def limit_offset_def Let_def)
  from lst[rule_format, of ?q reply] reply
  have "p_total (pagination reply) = st_total s" by simp
  with s part iff ok z reply show ?thesis by auto
qed

subsection \<open>What the writing statements return\<close>

lemma update_job_rows_result:
  assumes "update_job_rows ok d now v i uid = Inr (rows, d')"
  shows "rows = map (set_values v now) (filter (owned_by i uid) (job_applications d))"
    and "d' = d\<lparr>job_applications :=
           map (\<lambda>r. if owned_by i uid r then set_values v now r else r) (job_applications d)\<rparr>"
proof -
  have "filter (owned_by i uid)
          (map (\<lambda>r. if owned_by i uid r then set_values v now r else r) rs)
        = map (set_values v now) (filter (owned_by i uid) rs)" for rs
    by (induction rs) auto
  with assms show "rows = map (set_values v now) (filter (owned_by i uid) (job_applications d))"
    by (auto simp: update_job_rows_def Let_def split: if_splits)
  from assms show "d' = d\<lparr>job_applications :=
           map (\<lambda>r. if owned_by i uid r then set_values v now r else r) (job_applications d)\<rparr>"
    by (auto simp: update_job_rows_def Let_def split: if_splits)
qed

lemma update_job_success:
  assumes "update_job ok d now uid ident b = (Success c r, d')"
  obtains i old rest where "ident = IdInt i" "c = 200"
    "filter (owned_by i uid) (job_applications d) = old # rest"
    "r = set_values (update_params b) now old"
    "d' = d\<lparr>job_applications :=
       map (\<lambda>x. if owned_by i uid x then set_values (update_params b) now x else x)
           (job_applications d)\<rparr>"
proof -
  from assms obtain i rows where i: "ident = IdInt i"
    and u: "update_job_rows ok d now (update_params b) i uid = Inr (rows, d')"
    and rows: "rows = r # tl rows" and c: "c = 200"
    by (auto simp: update_job_def split: if_splits idparam.splits sum.splits list.splits)
  from update_job_rows_result(1)[OF u] rows
  obtain old rest where "filter (owned_by i uid) (job_applications d) = old # rest"
    "r = set_values (update_params b) now old"
    by (cases "filter (owned_by i uid) (job_applications d)") auto
  with i c update_job_rows_result(2)[OF u] that show thesis by blast
qed

lemma key_determines_row:
  "distinct (map f xs) \<Longrightarrow> x \<in> set xs \<Longrightarrow> y \<in> set xs \<Longrightarrow> f x = f y \<Longrightarrow> x = y"
  by (auto simp: distinct_map dest: inj_onD)

lemma update_params_fields:
  "company_name (update_params b) = prepareValue (b ''company_name'')"
  "job_title (update_params b) = prepareValue (b ''job_title'')"
  "job_url (update_params b) = prepareValue (b ''job_url'')"
  "location (update_params b) = prepareValue (b ''location'')"
  "salary_range (update_params b) = prepareValue (b ''salary_range'')"
  "application_date (update_params b) =
     (if truthy (b ''application_date'') then prepareValue (b ''application_date'') else None)"
  "status (update_params b) = prepareValue (b ''status'')"
  "description (update_params b) = prepareValue (b ''description'')"
  "requirements (update_params b) = prepareValue (b ''requirements'')"
  "notes_text (update_params b) = prepareValue (b ''notes'')"
  "contact_person (update_params b) = prepareValue (b ''contact_person'')"
  "contact_email (update_params b) = prepareValue (b ''contact_email'')"
  "follow_up_date (update_params b) =
     (if truthy (b ''follow_up_date'') then prepareValue (b ''follow_up_date'') else None)"
  by (simp_all add: update_params_def or_null_def)

lemma create_job_success:
  assumes "create_job ok d now uid b = (Success c r, d')"
  shows "c = 201 \<and> job_applications d' = job_applications d @ [r] \<and>
         status r = status (create_params b) \<and> job_id r = job_applications_id_seq d + 1 \<and>
         user_id r = Some uid"
  using assms
  by (auto simp: create_job_def insert_job_def Let_def split: if_splits sum.splits)

lemma not_owned_by_other:
  assumes "distinct (map job_id xs)" "r \<in> set xs" "job_id r = i" "user_id r = Some A" "A \<noteq> B"
  shows "filter (owned_by i B) xs = []"
proof -
  have "\<not> owned_by i B x" if "x \<in> set xs" for x
  proof
    assume o: "owned_by i B x"
    with assms(1-3) that have "x = r" by (auto simp: owned_by_def intro: key_determines_row)
    with o assms(4,5) show False by (simp add: owned_by_def)
  qed
  then show ?thesis by (simp add: filter_empty_conv)
qed

lemma update_job_not_owned:
  assumes "filter (owned_by i uid) (job_applications d) = []"
  shows "update_job ok d now uid (IdInt i) b =
           (if \<not> truthy (b ''company_name'') \<or> \<not> truthy (b ''job_title'')
            then Failure 400 ''Company name and job title are required''
            else if \<not> ok (update_params b) then internal_error
            else Failure 404 ''Job application not found'', d)"
proof -
  from assms have "\<forall>x \<in> set (job_applications d). \<not> owned_by i uid x"
    by (simp add: filter_empty_conv)
  then have "map (\<lambda>r. if owned_by i uid r then set_values (update_params b) now r else r)
               (job_applications d) = job_applications d"
    by (intro map_idI) simp
  with assms show ?thesis
    by (simp add: update_job_def update_job_rows_def Let_def)
qed

lemma delete_job_not_owned:
  assumes "filter (owned_by i uid) (job_applications d) = []"
  shows "delete_job d uid (IdInt i) = (Failure 404 ''Job application not found'', d)"
proof -
  from assms have "filter (\<lambda>r. \<not> owned_by i uid r) (job_applications d) = job_applications d"
    by (simp add: filter_empty_conv filter_id_conv)
  with assms show ?thesis
    by (simp add: delete_job_def delete_job_rows_def)
qed

lemma get_job_not_owned:
  assumes "filter (owned_by i uid) (job_applications d) = []"
  shows "get_job d uid (IdInt i) = Failure 404 ''Job application not found''"
  using assms by (simp add: get_job_def)

subsection \<open>Ownership\<close>

text \<open>
  Claim C1, as stated, fails for Update: the handler validates the fields before it
  consults the store, so user 2's update of user 1's record with no company name is
  answered 400, not 404.
\<close>

theorem cross_user_update_counterexample:
  "acme_job \<in> set (job_applications sample_db) \<and> job_id acme_job = 1 \<and>
   user_id acme_job = Some 1 \<and>
   update_job (\<lambda>_. True) sample_db 30 2 (IdInt 1) no_fields
     = (Failure 400 ''Company name and job title are required'', sample_db)"
  by (simp add: sample_db_def acme_job_def update_job_def no_fields_def)

text \<open>
  Claim C1, amended. Let a record with identifier \<open>i\<close> be owned by \<open>A\<close>, and let \<open>B\<close> be
  another user. Get and Delete by \<open>B\<close> answer 404. Update by \<open>B\<close> always fails: with 400
  when the company name or the job title is missing or empty, and with 404 when both are
  present and the store accepts the values. Each attempt leaves the store as it was, and
  each gets the very response it would get if no record had the identifier \<open>i\<close>.
  The identifier is the primary key (\<open>reachable_job_ids_distinct\<close>).
\<close>

theorem cross_user_access:
  assumes keys: "distinct (map job_id (job_applications d))"
      and rec: "r \<in> set (job_applications d)" "job_id r = i" "user_id r = Some A"
      and other: "A \<noteq> B"
  shows "get_job d B (IdInt i) = Failure 404 ''Job application not found'' \<and>
         delete_job d B (IdInt i) = (Failure 404 ''Job application not found'', d) \<and>
         (\<exists>c msg. update_job ok d now B (IdInt i) b = (Failure c msg, d)) \<and>
         (\<not> truthy (b ''company_name'') \<or> \<not> truthy (b ''job_title'') \<longrightarrow>
            update_job ok d now B (IdInt i) b =
              (Failure 400 ''Company name and job title are required'', d)) \<and>
         (truthy (b ''company_name'') \<and> truthy (b ''job_title'') \<and> ok (update_params b) \<longrightarrow>
            update_job ok d now B (IdInt i) b =
              (Failure 404 ''Job application not found'', d)) \<and>
         (let absent = d\<lparr>job_applications := filter (\<lambda>x. job_id x \<noteq> i) (job_applications d)\<rparr>
          in get_job absent B (IdInt i) = get_job d B (IdInt i) \<and>
             fst (delete_job absent B (IdInt i)) = fst (delete_job d B (IdInt i)) \<and>
             fst (update_job ok absent now B (IdInt i) b) = fst (update_job ok d now B (IdInt i) b))"
proof -
  let ?absent = "d\<lparr>job_applications := filter (\<lambda>x. job_id x \<noteq> i) (job_applications d)\<rparr>"
  from not_owned_by_other[OF keys rec other]
  have none: "filter (owned_by i B) (job_applications d) = []" .
  have none': "filter (owned_by i B) (job_applications ?absent) = []"
    by (simp add: filter_empty_conv owned_by_def)
  note g = get_job_not_owned[OF none] get_job_not_owned[OF none']
  note dl = delete_job_not_owned[OF none] delete_job_not_owned[OF none']
  note u = update_job_not_owned[OF none, of ok now b] update_job_not_owned[OF none', of ok now b]
  have 1: "\<exists>c msg. update_job ok d now B (IdInt i) b = (Failure c msg, d)"
    unfolding u by simp
  have 2: "\<not> truthy (b ''company_name'') \<or> \<not> truthy (b ''job_title'') \<longrightarrow>
            update_job ok d now B (IdInt i) b =
              (Failure 400 ''Company name and job title are required'', d)"
    unfolding u by simp
  have 3: "truthy (b ''company_name'') \<and> truthy (b ''job_title'') \<and> ok (update_params b) \<longrightarrow>
            update_job ok d now B (IdInt i) b =
              (Failure 404 ''Job application not found'', d)"
    unfolding u by simp
  have 4: "get_job ?absent B (IdInt i) = get_job d B (IdInt i)"
    unfolding g by simp
  have 5: "fst (delete_job ?absent B (IdInt i)) = fst (delete_job d B (IdInt i))"
    unfolding dl by simp
  have 6: "fst (update_job ok ?absent now B (IdInt i) b) = fst (update_job ok d now B (IdInt i) b)"
    unfolding u by simp
  from g(1) dl(1) 1 2 3 4 5 6 show ?thesis unfolding Let_def by blast
qed

theorem cross_user_access_witness:
  "get_job sample_db 2 (IdInt 1) = Failure 404 ''Job application not found'' \<and>
   delete_job sample_db 2 (IdInt 1) = (Failure 404 ''Job application not found'', sample_db) \<and>
   update_job (\<lambda>_. True) sample_db 30 2 (IdInt 1) no_fields
     = (Failure 400 ''Company name and job title are required'', sample_db) \<and>
   update_job (\<lambda>_. True) sample_db 30 2 (IdInt 1) acme_body
     = (Failure 404 ''Job application not found'', sample_db)"
proof -
  have k: "distinct (map job_id (job_applications sample_db))"
    and r: "acme_job \<in> set (job_applications sample_db)"
    by (simp_all add: sample_db_def)
  have i: "job_id acme_job = 1" and o: "user_id acme_job = Some 1"
    by (simp_all add: acme_job_def)
  have ne: "(1::int) \<noteq> 2" by simp
  from cross_user_access[OF k r i o ne, of "\<lambda>_. True" 30 no_fields]
       cross_user_access[OF k r i o ne, of "\<lambda>_. True" 30 acme_body]
  show ?thesis by (simp add: no_fields_def acme_body_def)
qed

subsection \<open>Status\<close>

text \<open>
  Claim C5, as stated, fails: Create stores the status \<^verbatim>\<open>on hold\<close>, which is none of the
  five values, and Update without a status stores NULL.
\<close>

theorem status_not_enumerated_counterexample:
  "create_job (\<lambda>_. True) sample_db 30 1 on_hold_body
     = (Success 201 on_hold_job,
        sample_db\<lparr>job_applications := [acme_job, on_hold_job], job_applications_id_seq := 2\<rparr>) \<and>
   status on_hold_job = Some ''on hold'' \<and> ''on hold'' \<notin> set status_values \<and>
   (case fst (update_job (\<lambda>_. True) sample_db 30 1 (IdInt 1) acme_body) of
      Success c r \<Rightarrow> status r = None
    | Failure c msg \<Rightarrow> False)"
  by (simp add: create_job_def insert_job_def create_params_def on_hold_body_def acme_body_def
        no_fields_def or_null_def sample_db_def ann_def bob_def on_hold_job_def
        status_values_def update_job_def update_job_rows_def update_params_def
        acme_job_def owned_by_def set_values_def Let_def)

text \<open>
  Claim C5, amended. A record that Create stores has the status \<^verbatim>\<open>applied\<close> when the
  request has no status field, and otherwise the status the request carries; a record
  that Update stores has the status the request carries, which is NULL when the field
  is absent or null. Neither handler compares the status with the five values.
\<close>

theorem status_stored_as_sent:
  "(create_job ok d now uid b = (Success c r, d') \<longrightarrow>
      r \<in> set (job_applications d') \<and>
      status r = (if b ''status'' = JUndefined then Some ''applied''
                  else prepareValue (b ''status''))) \<and>
   (update_job ok d now uid ident b = (Success c r, d') \<longrightarrow>
      r \<in> set (job_applications d') \<and> status r = prepareValue (b ''status''))"
proof (intro conjI impI)
  assume a: "create_job ok d now uid b = (Success c r, d')"
  from create_job_success[OF a]
  show "r \<in> set (job_applications d')" by simp
  from create_job_success[OF a]
  show "status r = (if b ''status'' = JUndefined then Some ''applied''
                  else prepareValue (b ''status''))"
    by (cases "b ''status''") (simp_all add: create_params_def)
next
  assume a: "update_job ok d now uid ident b = (Success c r, d')"
  from a obtain i old rest where
    f: "filter (owned_by i uid) (job_applications d) = old # rest"
    and r: "r = set_values (update_params b) now old"
    and d': "d' = d\<lparr>job_applications :=
       map (\<lambda>x. if owned_by i uid x then set_values (update_params b) now x else x)
           (job_applications d)\<rparr>"
    by (rule update_job_success)
  from f have "old \<in> set (filter (owned_by i uid) (job_applications d))" by simp
  then have "old \<in> set (job_applications d)" "owned_by i uid old" by simp_all
  with r d' show "r \<in> set (job_applications d')" by force
  from r show "status r = prepareValue (b ''status'')"
    by (simp add: set_values_def update_params_def)
qed

theorem status_stored_as_sent_witness:
  "(\<exists>r d'. create_job (\<lambda>_. True) sample_db 30 1 acme_body = (Success 201 r, d') \<and>
      r \<in> set (job_applications d') \<and> status r = Some ''applied'') \<and>
   (\<exists>r d'. update_job (\<lambda>_. True) sample_db 30 1 (IdInt 1)
              (acme_body(''status'' := JString ''interview'')) = (Success 200 r, d') \<and>
      r \<in> set (job_applications d') \<and> status r = Some ''interview'')"
proof -
  obtain r d' where c: "create_job (\<lambda>_. True) sample_db 30 1 acme_body = (Success 201 r, d')"
    by (simp add: create_job_def insert_job_def acme_body_def no_fields_def sample_db_def
          ann_def bob_def create_params_def Let_def)
  obtain r2 d2 where u: "update_job (\<lambda>_. True) sample_db 30 1 (IdInt 1)
              (acme_body(''status'' := JString ''interview'')) = (Success 200 r2, d2)"
    by (simp add: update_job_def update_job_rows_def acme_body_def no_fields_def sample_db_def
          acme_job_def owned_by_def update_params_def Let_def)
  from status_stored_as_sent[where b = acme_body and ok = "\<lambda>_. True" and d = sample_db
         and now = 30 and uid = 1 and c = 201 and r = r and d' = d'] c
  have 1: "r \<in> set (job_applications d') \<and> status r = Some ''applied''"
    by (simp add: acme_body_def no_fields_def)
  from status_stored_as_sent[where b = "acme_body(''status'' := JString ''interview'')"
         and ok = "\<lambda>_. True" and d = sample_db and ident = "IdInt 1"
         and now = 30 and uid = 1 and c = 200 and r = r2 and d' = d2] u
  have 2: "r2 \<in> set (job_applications d2) \<and> status r2 = Some ''interview''"
    by simp
  from c u 1 2 show ?thesis by blast
qed

subsection \<open>Update\<close>

text \<open>
  Claim C6, as stated, fails for a blank text field: an update that sends an empty
  \<^verbatim>\<open>job_url\<close> stores the empty string, not NULL. Only the two dates go through
  \<^verbatim>\<open>|| null\<close>.
\<close>

theorem update_blank_text_counterexample:
  "update_job (\<lambda>_. True) sample_db 30 1 (IdInt 1) blank_url_body
     = (Success 200 blank_url_job, sample_db\<lparr>job_applications := [blank_url_job]\<rparr>) \<and>
   blank_url_body ''job_url'' = JString [] \<and>
   job_url blank_url_job = Some [] \<and> job_url blank_url_job \<noteq> None"
  by (simp add: update_job_def update_job_rows_def update_params_def blank_url_body_def
        acme_body_def no_fields_def or_null_def sample_db_def acme_job_def blank_url_job_def
        owned_by_def set_values_def Let_def)

text \<open>
  Claim C6, amended. A successful Update replaces the whole record of that identifier:
  every column the request can set holds what the request carries, so a field that is
  absent (or null) is stored as NULL, a blank date is stored as NULL, and a blank text
  field is stored as the empty string; nothing of the previous values is kept but the
  identifier, the owner and \<^verbatim>\<open>created_at\<close>. \<^verbatim>\<open>updated_at\<close> is the current timestamp. The
  record returned is the record stored under the identifier, and no other record
  changes.
\<close>

theorem update_job_replaces_record:
  assumes upd: "update_job ok d now uid ident b = (Success c r, d')"
      and keys: "distinct (map job_id (job_applications d))"
  shows "\<exists>i old. ident = IdInt i \<and> old \<in> set (job_applications d) \<and>
           job_id old = i \<and> user_id old = Some uid \<and>
           company_name r = prepareValue (b ''company_name'') \<and>
           job_title r = prepareValue (b ''job_title'') \<and>
           job_url r = prepareValue (b ''job_url'') \<and>
           location r = prepareValue (b ''location'') \<and>
           salary_range r = prepareValue (b ''salary_range'') \<and>
           application_date r =
             (if truthy (b ''application_date'') then prepareValue (b ''application_date'')
              else None) \<and>
           status r = prepareValue (b ''status'') \<and>
           description r = prepareValue (b ''description'') \<and>
           requirements r = prepareValue (b ''requirements'') \<and>
           notes_text r = prepareValue (b ''notes'') \<and>
           contact_person r = prepareValue (b ''contact_person'') \<and>
           contact_email r = prepareValue (b ''contact_email'') \<and>
           follow_up_date r =
             (if truthy (b ''follow_up_date'') then prepareValue (b ''follow_up_date'')
              else None) \<and>
           updated_at r = now \<and>
           job_id r = i \<and> user_id r = Some uid \<and> created_at r = created_at old \<and>
           d' = d\<lparr>job_applications :=
                   map (\<lambda>x. if job_id x = i then r else x) (job_applications d)\<rparr> \<and>
           filter (\<lambda>x. job_id x = i) (job_applications d') = [r]"
proof -
  from upd obtain i old rest where i: "ident = IdInt i"
    and f: "filter (owned_by i uid) (job_applications d) = old # rest"
    and r: "r = set_values (update_params b) now old"
    and d': "d' = d\<lparr>job_applications :=
       map (\<lambda>x. if owned_by i uid x then set_values (update_params b) now x else x)
           (job_applications d)\<rparr>"
    by (rule update_job_success)
  from f have "old \<in> set (filter (owned_by i uid) (job_applications d))" by simp
  then have old: "old \<in> set (job_applications d)" "job_id old = i" "user_id old = Some uid"
    by (simp_all add: owned_by_def)
  have same: "(if owned_by i uid x then set_values (update_params b) now x else x)
              = (if job_id x = i then r else x)" if "x \<in> set (job_applications d)" for x
  proof (cases "job_id x = i")
    case True
    with keys that old have "x = old" by (auto intro: key_determines_row)
    with old r show ?thesis by (simp add: owned_by_def)
  next
    case False
    then show ?thesis by (simp add: owned_by_def)
  qed
  then have m: "map (\<lambda>x. if owned_by i uid x then set_values (update_params b) now x else x)
                  (job_applications d)
              = map (\<lambda>x. if job_id x = i then r else x) (job_applications d)"
    by (intro map_cong) simp_all
  with d' have d'': "d' = d\<lparr>job_applications :=
                   map (\<lambda>x. if job_id x = i then r else x) (job_applications d)\<rparr>"
    by simp
  from r old have rid: "job_id r = i" by simp
  have ids: "map job_id (job_applications d') = map job_id (job_applications d)"
    unfolding d' using map_job_id_update[of i uid "update_params b" now "job_applications d"]
    by simp
  from old d'' rid have rin: "r \<in> set (job_applications d')" by force
  from ids keys have "distinct (map job_id (job_applications d'))" by simp
  from filter_key_unique[OF this rin] rid
  have stored: "filter (\<lambda>x. job_id x = i) (job_applications d') = [r]" by simp
  from r have fields:
    "company_name r = prepareValue (b ''company_name'')"
    "job_title r = prepareValue (b ''job_title'')"
    "job_url r = prepareValue (b ''job_url'')"
    "location r = prepareValue (b ''location'')"
    "salary_range r = prepareValue (b ''salary_range'')"
    "application_date r =
       (if truthy (b ''application_date'') then prepareValue (b ''application_date'') else None)"
    "status r = prepareValue (b ''status'')"
    "description r = prepareValue (b ''description'')"
    "requirements r = prepareValue (b ''requirements'')"
    "notes_text r = prepareValue (b ''notes'')"
    "contact_person r = prepareValue (b ''contact_person'')"
    "contact_email r = prepareValue (b ''contact_email'')"
    "follow_up_date r =
       (if truthy (b ''follow_up_date'') then prepareValue (b ''follow_up_date'') else None)"
    "updated_at r = now"
    by (simp_all add: set_values_def update_params_fields)
  from r old have keep: "user_id r = Some uid" "created_at r = created_at old" by simp_all
  from i old fields rid keep d'' stored show ?thesis by blast
qed

theorem update_job_replaces_record_witness:
  "\<exists>old. old \<in> set (job_applications sample_db) \<and> job_id old = 1 \<and> user_id old = Some 1 \<and>
         company_name blank_url_job = Some ''Acme'' \<and>
         job_title blank_url_job = Some ''Engineer'' \<and>
         job_url blank_url_job = Some [] \<and>
         location blank_url_job = None \<and>
         application_date blank_url_job = None \<and>
         status blank_url_job = Some ''interview'' \<and>
         notes_text blank_url_job = None \<and>
         updated_at blank_url_job = 30 \<and>
         created_at blank_url_job = created_at old \<and>
         filter (\<lambda>x. job_id x = 1)
           (job_applications (sample_db\<lparr>job_applications := [blank_url_job]\<rparr>)) = [blank_url_job]"
proof -
  have u: "update_job (\<lambda>_. True) sample_db 30 1 (IdInt 1) blank_url_body
     = (Success 200 blank_url_job, sample_db\<lparr>job_applications := [blank_url_job]\<rparr>)"
    by (simp add: update_job_def update_job_rows_def update_params_def blank_url_body_def
        acme_body_def no_fields_def or_null_def sample_db_def acme_job_def blank_url_job_def
        owned_by_def set_values_def Let_def)
  have k: "distinct (map job_id (job_applications sample_db))"
    by (simp add: sample_db_def)
  from update_job_replaces_record[OF u k]
  show ?thesis
    by (auto simp: blank_url_body_def acme_body_def no_fields_def)
qed

subsection \<open>The company filter\<close>

lemma like_match_percent_step:
  "like_match (CHR ''%'' # ps) [] = like_match ps []"
  "like_match (CHR ''%'' # ps) (c # cs) = (like_match ps (c # cs) \<or> like_match (CHR ''%'' # ps) cs)"
  by simp_all

lemma like_match_plain_step:
  "plain p \<Longrightarrow> like_match (p # ps) [] = False"
  "plain p \<Longrightarrow> like_match (p # ps) (c # cs) = (c = p \<and> like_match ps cs)"
  by (simp_all add: plain_def)

lemma like_match_percent: "like_match ''%'' s"
  by (induction s) (simp_all only: like_match_percent_step like_match.simps(1) simp_thms)

lemma starts_with_Nil [simp]: "starts_with xs [] = (xs = [])"
  by (cases xs) auto

lemma like_match_plain_prefix:
  "list_all plain ps \<Longrightarrow> like_match (ps @ ''%'') s = starts_with ps s"
proof (induction ps arbitrary: s)
  case Nil
  then show ?case using like_match_percent[of s] by (simp del: like_match.simps)
next
  case (Cons p ps)
  then show ?case
    by (cases s) (auto simp del: like_match.simps simp add: like_match_plain_step)
qed

lemma like_match_plain_substring:
  assumes "list_all plain ps"
  shows "like_match (''%'' @ ps @ ''%'') s = is_substring ps s"
proof (induction s)
  case Nil
  from like_match_plain_prefix[OF assms, of "[]"] show ?case
    by (simp del: like_match.simps add: like_match_percent_step)
next
  case (Cons c cs)
  from like_match_plain_prefix[OF assms, of "c # cs"] Cons show ?case
    by (simp del: like_match.simps add: like_match_percent_step)
qed

lemma plain_lower: "plain (lower c) = plain c"
proof (cases "65 \<le> (of_char c :: nat) \<and> (of_char c :: nat) \<le> 90")
  case False
  then have "lower c = c" by (auto simp: lower_def Let_def)
  then show ?thesis by simp
next
  case True
  let ?n = "of_char c :: nat"
  from True have l: "lower c = char_of (?n + 32)" by (simp add: lower_def Let_def)
  from True have "(of_char (char_of (?n + 32)) :: nat) = ?n + 32" by (simp add: of_char_of)
  with True l have r: "97 \<le> (of_char (lower c) :: nat)" by simp
  have 1: "plain (lower c)"
    unfolding plain_def using r by auto
  have 2: "plain c"
    unfolding plain_def using True by auto
  from 1 2 show ?thesis by simp
qed

lemma lower_percent: "lower CHR ''%'' = CHR ''%''"
  by (simp add: lower_def)

text \<open>
  For a filter text without \<^verbatim>\<open>%\<close>, \<^verbatim>\<open>_\<close> and backslash the pattern does what the
  specification describes: it selects the names that contain the text, letter case
  apart.
\<close>

lemma company_filter_plain_text:
  assumes "list_all plain company"
  shows "ilike col (''%'' @ company @ ''%'') = spec_company_match col company"
proof (cases col)
  case None
  then show ?thesis by (simp add: ilike_def spec_company_match_def)
next
  case (Some s)
  from assms have "list_all plain (map lower company)"
    by (simp add: list_all_iff plain_lower)
  from like_match_plain_substring[OF this, of "map lower s"] Some
  show ?thesis by (simp add: ilike_def spec_company_match_def lower_percent)
qed


end
